theory Spec2Isabelle
  imports Complex_Main
begin

section \<open>Python primitives used by app.py\<close>

text \<open>
  Python floats are modelled by exact real numbers and Python ints by \<open>int\<close>: the
  formulas of the calculator are read as arithmetic over the reals, and the rounding
  error, overflow and underflow of IEEE-754 doubles are outside this model. The only
  exception the arithmetic of the calculation pipeline could raise over the reals is
  the division by zero, which is kept as an error value.
\<close>

datatype py_error = ZeroDivisionError

text \<open>\<^verbatim>\<open>a / b\<close> on numbers: raises ZeroDivisionError when the divisor is zero.\<close>

definition py_truediv :: "real \<Rightarrow> real \<Rightarrow> py_error + real" where
  "py_truediv a b = (if b = 0 then Inl ZeroDivisionError else Inr (a / b))"

text \<open>
  \<^verbatim>\<open>round(x)\<close> with one argument: the nearest integer, a tie going to the even
  neighbour; the result is an int.
\<close>

definition py_round :: "real \<Rightarrow> int" where
  "py_round x =
     (let f = \<lfloor>x\<rfloor>; d = x - of_int f
      in if d < 1 / 2 then f
         else if 1 / 2 < d then f + 1
         else if even f then f else f + 1)"

text \<open>
  \<^verbatim>\<open>s.lower()\<close>: the letters A to Z are mapped to a to z. A string is a list of
  bytes here; no character outside A to Z has a lower-case form among the letters of
  \<^verbatim>\<open>male\<close>, so the comparison of the lowered string with \<^verbatim>\<open>"male"\<close> is the
  source's.
\<close>

definition lower_char :: "char \<Rightarrow> char" where
  "lower_char c =
     (let n = (of_char c :: nat)
      in if 65 \<le> n \<and> n \<le> 90 then char_of (n + 32) else c)"

definition lower :: "string \<Rightarrow> string" where
  "lower s = map lower_char s"

section \<open>Helper functions of app.py\<close>

text \<open>
  \<^verbatim>\<open>
  def calc_bmi(weight_kg, height_cm):
      h_m = height_cm / 100.0
      if h_m <= 0:
          return None
      return weight_kg / (h_m ** 2)
  \<close>
  The division by the literal 100.0 cannot fail; the second division is the guarded one.
\<close>

definition calc_bmi :: "real \<Rightarrow> real \<Rightarrow> py_error + real option" where
  "calc_bmi weight_kg height_cm =
     (let h_m = height_cm / 100
      in if h_m \<le> 0 then Inr None
         else (case py_truediv weight_kg (h_m ^ 2) of
                 Inl e \<Rightarrow> Inl e
               | Inr b \<Rightarrow> Inr (Some b)))"

text \<open>
  \<^verbatim>\<open>
  def bmi_category(bmi):
      if bmi is None:
          return "Unknown"
      if bmi < 18.5:
          return "Underweight"
      elif bmi < 25:
          return "Normal weight"
      elif bmi < 30:
          return "Overweight"
      else:
          return "Obesity"
  \<close>
\<close>

definition bmi_category :: "real option \<Rightarrow> string" where
  "bmi_category bmi =
     (case bmi of
        None \<Rightarrow> ''Unknown''
      | Some b \<Rightarrow>
          if b < 18.5 then ''Underweight''
          else if b < 25 then ''Normal weight''
          else if b < 30 then ''Overweight''
          else ''Obesity'')"

text \<open>
  \<^verbatim>\<open>
  def bmr_mifflin(weight, height, age, gender):
      if gender.lower() == "male":
          return 10*weight + 6.25*height - 5*age + 5
      else:
          return 10*weight + 6.25*height - 5*age - 161
  \<close>
  The age is an int (the form's age field has integer bounds and step).
\<close>

definition bmr_mifflin :: "real \<Rightarrow> real \<Rightarrow> int \<Rightarrow> string \<Rightarrow> real" where
  "bmr_mifflin weight height age gender =
     (if lower gender = ''male''
      then 10 * weight + 6.25 * height - 5 * of_int age + 5
      else 10 * weight + 6.25 * height - 5 * of_int age - 161)"

text \<open>
  \<^verbatim>\<open>
  def activity_multiplier(level):
      mapping = {
          "sedentary": 1.2, "light": 1.375, "moderate": 1.55,
          "active": 1.725, "very active": 1.9
      }
      return mapping.get(level, 1.2)
  \<close>
\<close>

definition mapping :: "(string \<times> real) list" where
  "mapping =
     [(''sedentary'', 1.2),
      (''light'', 1.375),
      (''moderate'', 1.55),
      (''active'', 1.725),
      (''very active'', 1.9)]"

definition activity_multiplier :: "string \<Rightarrow> real" where
  "activity_multiplier level =
     (case map_of mapping level of Some m \<Rightarrow> m | None \<Rightarrow> 1.2)"

text \<open>
  \<^verbatim>\<open>
  def calorie_target(tdee, goal):
      if goal == 'lose':
          return max(1200, tdee - 500)
      elif goal == 'gain':
          return tdee + 300
      else:
          return tdee
  \<close>
\<close>

definition calorie_target :: "real \<Rightarrow> string \<Rightarrow> real" where
  "calorie_target tdee goal =
     (if goal = ''lose'' then max 1200 (tdee - 500)
      else if goal = ''gain'' then tdee + 300
      else tdee)"

text \<open>
  \<^verbatim>\<open>
  def macro_split(calories, protein_g_per_kg, weight):
      protein_g = protein_g_per_kg * weight
      protein_cals = protein_g * 4
      fat_cals = calories * 0.30
      fat_g = fat_cals / 9
      carb_cals = calories - protein_cals - fat_cals
      carb_g = max(0, carb_cals / 4)
      return {'protein_g': round(protein_g), 'fat_g': round(fat_g),
              'carb_g': round(carb_g)}
  \<close>
  The returned dict has exactly these three keys; it is a record here. The rounded
  values carry the key names, the local variables of the same names are primed.
\<close>

record macros =
  protein_g :: int
  fat_g :: int
  carb_g :: int

definition macro_split :: "real \<Rightarrow> real \<Rightarrow> real \<Rightarrow> macros" where
  "macro_split calories protein_g_per_kg weight =
     (let protein_g' = protein_g_per_kg * weight;
          protein_cals = protein_g' * 4;
          fat_cals = calories * 0.30;
          fat_g' = fat_cals / 9;
          carb_cals = calories - protein_cals - fat_cals;
          carb_g' = max 0 (carb_cals / 4)
      in \<lparr>protein_g = py_round protein_g',
          fat_g = py_round fat_g',
          carb_g = py_round carb_g'\<rparr>)"

section \<open>The form and the calculation script\<close>

text \<open>
  The values the form hands to the script. The fields are the script's global variables
  of the same names.
\<close>

record inputs =
  weight :: real
  age :: int
  water_cups :: int
  height :: real
  gender :: string
  exercise_level :: string
  goal :: string

text \<open>
  The bounds and option lists of the form's widgets
  (\<^verbatim>\<open>min_value\<close>, \<^verbatim>\<open>max_value\<close>, \<^verbatim>\<open>options\<close>).
\<close>

definition form_accepts :: "inputs \<Rightarrow> bool" where
  "form_accepts i \<longleftrightarrow>
     20 \<le> weight i \<and> weight i \<le> 300 \<and>
     10 \<le> age i \<and> age i \<le> 100 \<and>
     0 \<le> water_cups i \<and> water_cups i \<le> 20 \<and>
     80 \<le> height i \<and> height i \<le> 250 \<and>
     gender i \<in> set [''male'', ''female'', ''other''] \<and>
     exercise_level i \<in> set [''sedentary'', ''light'', ''moderate'', ''active'', ''very active''] \<and>
     goal i \<in> set [''maintain'', ''lose'', ''gain'']"

text \<open>The values the form shows before the user changes anything.\<close>

definition form_defaults :: inputs where
  "form_defaults =
     \<lparr>weight = 70, age = 25, water_cups = 6, height = 170, gender = ''male'',
      exercise_level = ''light'', goal = ''maintain''\<rparr>"

text \<open>
  The variables the script assigns. The script is a sequence of assignments to module
  globals; it is modelled by state passing over this record, whose content before the
  run is arbitrary.
\<close>

record vars =
  bmi :: "real option"
  category :: string
  bmr :: real
  mult :: real
  tdee :: real
  cal_target :: real
  protein_g_per_kg :: real
  macros :: macros
  recommended_water_ml :: real
  recommended_cups :: int

text \<open>
  The section \<^verbatim>\<open>Calculations\<close> of the script:
  \<^verbatim>\<open>
  bmi = calc_bmi(weight, height)
  category = bmi_category(bmi)
  bmr = bmr_mifflin(weight, height, age,
                    gender if gender in ['male','female'] else 'female')
  mult = activity_multiplier(exercise_level)
  tdee = bmr * mult
  cal_target = calorie_target(tdee, goal)
  if goal == 'lose':
      protein_g_per_kg = 1.6
  elif goal == 'gain':
      protein_g_per_kg = 1.6
  else:
      protein_g_per_kg = 1.2
  macros = macro_split(cal_target, protein_g_per_kg, weight)
  \<close>
  An exception of \<^verbatim>\<open>calc_bmi\<close> ends the script. The string \<^verbatim>\<open>bmi_text\<close> is
  presentation only and is left out.
\<close>

definition calculations :: "inputs \<Rightarrow> vars \<Rightarrow> py_error + vars" where
  "calculations i s0 =
     (case calc_bmi (weight i) (height i) of
        Inl e \<Rightarrow> Inl e
      | Inr b \<Rightarrow>
          (let s1 = s0\<lparr>bmi := b\<rparr>;
               s2 = s1\<lparr>category := bmi_category (bmi s1)\<rparr>;
               s3 = s2\<lparr>bmr := bmr_mifflin (weight i) (height i) (age i)
                       (if gender i \<in> set [''male'', ''female''] then gender i
                        else ''female'')\<rparr>;
               s4 = s3\<lparr>mult := activity_multiplier (exercise_level i)\<rparr>;
               s5 = s4\<lparr>tdee := bmr s4 * mult s4\<rparr>;
               s6 = s5\<lparr>cal_target := calorie_target (tdee s5) (goal i)\<rparr>;
               s7 = s6\<lparr>protein_g_per_kg :=
                       (if goal i = ''lose'' then 1.6
                        else if goal i = ''gain'' then 1.6
                        else 1.2)\<rparr>;
               s8 = s7\<lparr>macros := macro_split (cal_target s7) (protein_g_per_kg s7) (weight i)\<rparr>
           in Inr s8))"



section \<open>Basic facts\<close>


lemma calc_bmi_eq:
  "calc_bmi weight_kg height_cm =
     Inr (if height_cm \<le> 0 then None else Some (weight_kg / (height_cm / 100) ^ 2))"
  by (simp add: calc_bmi_def py_truediv_def Let_def)

lemma calculations_eq:
  "calculations i s0 =
     Inr (s0\<lparr>bmi := (if height i \<le> 0 then None
                        else Some (weight i / (height i / 100) ^ 2)),
             category := bmi_category (if height i \<le> 0 then None
                        else Some (weight i / (height i / 100) ^ 2)),
             bmr := bmr_mifflin (weight i) (height i) (age i)
                      (if gender i = ''male'' \<or> gender i = ''female'' then gender i
                       else ''female''),
             mult := activity_multiplier (exercise_level i),
             tdee := bmr_mifflin (weight i) (height i) (age i)
                      (if gender i = ''male'' \<or> gender i = ''female'' then gender i
                       else ''female'') * activity_multiplier (exercise_level i),
             cal_target := calorie_target
                      (bmr_mifflin (weight i) (height i) (age i)
                        (if gender i = ''male'' \<or> gender i = ''female'' then gender i
                         else ''female'') * activity_multiplier (exercise_level i))
                      (goal i),
             protein_g_per_kg := (if goal i = ''lose'' \<or> goal i = ''gain'' then 1.6 else 1.2),
             macros := macro_split
                      (calorie_target
                        (bmr_mifflin (weight i) (height i) (age i)
                          (if gender i = ''male'' \<or> gender i = ''female'' then gender i
                           else ''female'') * activity_multiplier (exercise_level i))
                        (goal i))
                      (if goal i = ''lose'' \<or> goal i = ''gain'' then 1.6 else 1.2)
                      (weight i)\<rparr>)"
  by (simp add: calculations_def calc_bmi_eq Let_def)

section \<open>Test vector of the basal metabolic rate\<close>

text \<open>
  C1, as amended: \<^verbatim>\<open>bmr_mifflin(70, 175, 25, "male")\<close> returns
  10 * 70 + 6.25 * 175 - 5 * 25 + 5, which is 1673.75.
\<close>

theorem bmr_mifflin_test_vector:
  "bmr_mifflin 70 175 25 ''male'' = 10 * 70 + 6.25 * 175 - 5 * 25 + 5
   \<and> bmr_mifflin 70 175 25 ''male'' = 1673.75"
  by (simp add: bmr_mifflin_def lower_def lower_char_def)

text \<open>
  C1, as the spec states it, fails: the value returned for the test vector is not
  1733.75.
\<close>

theorem bmr_mifflin_test_vector_counterexample:
  "bmr_mifflin 70 175 25 ''male'' \<noteq> 1733.75"
  by (simp add: bmr_mifflin_def lower_def lower_char_def)

section \<open>Calorie target\<close>

text \<open>
  C3: for every TDEE \<open>t\<close>, \<^verbatim>\<open>calorie_target(t, goal)\<close> is
  max(1200, t - 500) for the goal lose, t + 300 for gain and t for maintain;
  \<^verbatim>\<open>calorie_target(2000, "lose")\<close> is 1500 and \<^verbatim>\<open>calorie_target(1400, "lose")\<close>
  is 1200.
\<close>

theorem calorie_target_by_goal:
  "calorie_target t ''lose'' = max 1200 (t - 500)
   \<and> calorie_target t ''gain'' = t + 300
   \<and> calorie_target t ''maintain'' = t
   \<and> calorie_target 2000 ''lose'' = 1500
   \<and> calorie_target 1400 ''lose'' = 1200"
  by (simp add: calorie_target_def)

text \<open>
  C2, as amended: whatever the form hands over, the script's calorie target is at least
  1200 when the goal is lose; for the goal maintain it is the TDEE itself and for gain
  the TDEE plus 300, with no lower bound applied.
\<close>

theorem cal_target_floor_lose_only:
  "\<exists>s. calculations i s0 = Inr s
       \<and> (goal i = ''lose'' \<longrightarrow> 1200 \<le> cal_target s)
       \<and> (goal i = ''maintain'' \<longrightarrow> cal_target s = tdee s)
       \<and> (goal i = ''gain'' \<longrightarrow> cal_target s = tdee s + 300)"
  by (simp add: calculations_eq calorie_target_def)

theorem cal_target_floor_lose_only_witness:
  "\<forall>s0.
     (\<exists>s. calculations (form_defaults\<lparr>goal := ''lose''\<rparr>) s0 = Inr s
          \<and> 1200 \<le> cal_target s)
     \<and> (\<exists>s. calculations form_defaults s0 = Inr s \<and> cal_target s = tdee s)
     \<and> (\<exists>s. calculations (form_defaults\<lparr>goal := ''gain''\<rparr>) s0 = Inr s
          \<and> cal_target s = tdee s + 300)"
proof (intro allI conjI)
  fix s0
  show "\<exists>s. calculations (form_defaults\<lparr>goal := ''lose''\<rparr>) s0 = Inr s
          \<and> 1200 \<le> cal_target s"
    using cal_target_floor_lose_only [of "form_defaults\<lparr>goal := ''lose''\<rparr>" s0]
    by auto
  show "\<exists>s. calculations form_defaults s0 = Inr s \<and> cal_target s = tdee s"
    using cal_target_floor_lose_only [of form_defaults s0]
    by (auto simp: form_defaults_def)
  show "\<exists>s. calculations (form_defaults\<lparr>goal := ''gain''\<rparr>) s0 = Inr s
          \<and> cal_target s = tdee s + 300"
    using cal_target_floor_lose_only [of "form_defaults\<lparr>goal := ''gain''\<rparr>" s0]
    by auto
qed

text \<open>
  C2, as the spec states it, fails. The form accepts weight 20, height 80, age 100,
  gender female, level sedentary and goal maintain; the BMR is
  200 + 500 - 500 - 161 = 39, the TDEE 39 * 1.2 = 46.8, and so is the calorie target,
  which is below 1200.
\<close>

theorem cal_target_floor_counterexample:
  "form_accepts \<lparr>weight = 20, age = 100, water_cups = 0, height = 80,
      gender = ''female'', exercise_level = ''sedentary'', goal = ''maintain''\<rparr>
   \<and> map_sum id cal_target
       (calculations
          \<lparr>weight = 20, age = 100, water_cups = 0, height = 80,
           gender = ''female'', exercise_level = ''sedentary'', goal = ''maintain''\<rparr>
          \<lparr>bmi = None, category = [], bmr = 0, mult = 0, tdee = 0, cal_target = 0,
           protein_g_per_kg = 0, macros = \<lparr>protein_g = 0, fat_g = 0, carb_g = 0\<rparr>,
           recommended_water_ml = 0, recommended_cups = 0\<rparr>) = Inr 46.8
   \<and> \<not> (1200 \<le> (46.8 :: real))"
  by (simp add: form_accepts_def calculations_eq calorie_target_def bmr_mifflin_def
      activity_multiplier_def mapping_def lower_def lower_char_def)

section \<open>Basal metabolic rate\<close>

text \<open>
  C4: for every weight, height and age, \<^verbatim>\<open>bmr_mifflin\<close> returns
  10 w + 6.25 h - 5 a + 5 for the gender male (compared in lower case) and
  10 w + 6.25 h - 5 a - 161 for every other gender, female and other alike; the script,
  which hands the gender other over as female, gets the same values.
\<close>

theorem bmr_mifflin_by_gender:
  "bmr_mifflin w h a ''male'' = 10 * w + 6.25 * h - 5 * of_int a + 5
   \<and> bmr_mifflin w h a ''female'' = 10 * w + 6.25 * h - 5 * of_int a - 161
   \<and> bmr_mifflin w h a ''other'' = 10 * w + 6.25 * h - 5 * of_int a - 161
   \<and> (lower g = ''male'' \<longrightarrow>
        bmr_mifflin w h a g = 10 * w + 6.25 * h - 5 * of_int a + 5)
   \<and> (lower g \<noteq> ''male'' \<longrightarrow>
        bmr_mifflin w h a g = 10 * w + 6.25 * h - 5 * of_int a - 161)
   \<and> (\<exists>s. calculations i s0 = Inr s
          \<and> bmr s = (if gender i = ''male''
                      then 10 * weight i + 6.25 * height i - 5 * of_int (age i) + 5
                      else 10 * weight i + 6.25 * height i - 5 * of_int (age i) - 161))"
proof -
  have male: "lower ''male'' = ''male''"
    by (simp add: lower_def lower_char_def)
  have female: "lower ''female'' \<noteq> ''male''"
    by (simp add: lower_def lower_char_def)
  have other: "lower ''other'' \<noteq> ''male''"
    by (simp add: lower_def lower_char_def)
  show ?thesis
    by (simp add: calculations_eq bmr_mifflin_def male female other)
qed

theorem bmr_mifflin_by_gender_witness:
  "lower ''Female'' \<noteq> ''male''
   \<and> bmr_mifflin 70 175 25 ''Female'' = 1507.75
   \<and> lower ''MALE'' = ''male''
   \<and> bmr_mifflin 70 175 25 ''MALE'' = 1673.75"
proof -
  have l: "lower ''Female'' \<noteq> ''male''"
    by code_simp
  have u: "lower ''MALE'' = ''male''"
    by code_simp
  from bmr_mifflin_by_gender [of 70 175 25 "''Female''"] l
  have f: "bmr_mifflin 70 175 25 ''Female'' = 10 * 70 + 6.25 * 175 - 5 * of_int 25 - 161"
    by blast
  from bmr_mifflin_by_gender [of 70 175 25 "''MALE''"] u
  have m: "bmr_mifflin 70 175 25 ''MALE'' = 10 * 70 + 6.25 * 175 - 5 * of_int 25 + 5"
    by blast
  from l u f m show ?thesis by simp
qed

section \<open>Body mass index\<close>





section \<open>Macronutrient split\<close>



section \<open>Activity multiplier\<close>

text \<open>
  C8, as amended: \<^verbatim>\<open>activity_multiplier\<close> is the lookup sedentary 1.2, light 1.375,
  moderate 1.55, active 1.725 and \<^verbatim>\<open>very active\<close> (the form's spelling, with a
  space) 1.9; every other level, also \<^verbatim>\<open>very_active\<close> and \<^verbatim>\<open>unknown\<close>, gets the
  default 1.2.
\<close>

theorem activity_multiplier_table:
  "activity_multiplier ''sedentary'' = 1.2
   \<and> activity_multiplier ''light'' = 1.375
   \<and> activity_multiplier ''moderate'' = 1.55
   \<and> activity_multiplier ''active'' = 1.725
   \<and> activity_multiplier ''very active'' = 1.9
   \<and> (level \<notin> set [''sedentary'', ''light'', ''moderate'', ''active'', ''very active''] \<longrightarrow>
        activity_multiplier level = 1.2)
   \<and> activity_multiplier ''unknown'' = 1.2"
  by (simp add: activity_multiplier_def mapping_def)

theorem activity_multiplier_table_witness:
  "''extreme'' \<notin> set [''sedentary'', ''light'', ''moderate'', ''active'', ''very active'']
   \<and> activity_multiplier ''extreme'' = 1.2"
proof -
  have out: "''extreme'' \<notin> set [''sedentary'', ''light'', ''moderate'', ''active'', ''very active'']"
    by simp
  with activity_multiplier_table [of "''extreme''"] show ?thesis
    by blast
qed

text \<open>
  C8, as the spec states it, fails: the level \<^verbatim>\<open>very_active\<close> of the claim's table
  is not a key of the code's table and gets 1.2, not 1.9; the level \<^verbatim>\<open>very active\<close>
  is outside the claim's table and gets 1.9, not the default.
\<close>

theorem activity_multiplier_counterexample:
  "activity_multiplier ''very_active'' = 1.2
   \<and> activity_multiplier ''very_active'' \<noteq> 1.9
   \<and> activity_multiplier ''very active'' = 1.9
   \<and> activity_multiplier ''very active'' \<noteq> 1.2"
  by (simp add: activity_multiplier_def mapping_def)

section \<open>Hydration and determinism\<close>



end
